theory Spec2Isabelle
  imports Main "HOL-Library.Sublist" "HOL-Library.Char_ord" "HOL-Library.List_Lexorder"
begin

section \<open>Characters and strings\<close>

text \<open>
  Python strings are modelled as \<^typ>\<open>string\<close> (lists of characters). The query
  language and the size grammar only look at ASCII characters, so case folding and the
  whitespace test are written out for ASCII.
\<close>

abbreviation double_quote :: char where
  "double_quote \<equiv> CHR 0x22"

abbreviation blank :: char where
  "blank \<equiv> CHR 0x20"

abbreviation tab :: char where
  "tab \<equiv> CHR 0x09"

abbreviation newline :: char where
  "newline \<equiv> CHR 0x0A"

text \<open>
  The exceptions that the modelled code can raise. \<open>IntegrityError\<close> and
  \<open>ProgrammingError\<close> come from the SQLite binding, \<open>ValueError\<close> and
  \<open>OverflowError\<close> from \<open>int\<close> and \<open>float\<close>, \<open>RequestError\<close> from the
  HTTP client.
\<close>

datatype error = IntegrityError | ProgrammingError | ValueError | OverflowError | RequestError

section \<open>Query tokenizer: \<open>DatasetDatabase._parse_search_query\<close>\<close>

text \<open>
  The three local variables of the loop: \<open>terms\<close>, \<open>current_term\<close>, \<open>in_quotes\<close>.
\<close>

record scanner =
  terms :: "string list"
  current_term :: string
  in_quotes :: bool

definition scan_start :: scanner where
  "scan_start = \<lparr>terms = [], current_term = [], in_quotes = False\<rparr>"

text \<open>One iteration of \<open>for char in query\<close>.\<close>

definition scan_char :: "scanner \<Rightarrow> char \<Rightarrow> scanner" where
  "scan_char s c =
     (if c = double_quote then s\<lparr>in_quotes := \<not> in_quotes s\<rparr>
      else if c = blank \<and> \<not> in_quotes s then
        (if current_term s \<noteq> [] then
           s\<lparr>terms := terms s @ [current_term s], current_term := []\<rparr>
         else s)
      else s\<lparr>current_term := current_term s @ [c]\<rparr>)"

definition scan :: "scanner \<Rightarrow> string \<Rightarrow> scanner" where
  "scan s query = foldl scan_char s query"

text \<open>The statements after the loop: a pending term is appended.\<close>

definition finish :: "scanner \<Rightarrow> string list" where
  "finish s = (if current_term s \<noteq> [] then terms s @ [current_term s] else terms s)"

definition parse_search_query :: "string \<Rightarrow> string list" where
  "parse_search_query query = finish (scan scan_start query)"

section \<open>Python built-ins used by the query compiler\<close>

text \<open>\<open>str.lower\<close>, on the ASCII letters.\<close>

definition to_lower :: "char \<Rightarrow> char" where
  "to_lower c =
     (case map_of (zip ''ABCDEFGHIJKLMNOPQRSTUVWXYZ'' ''abcdefghijklmnopqrstuvwxyz'') c of
        None \<Rightarrow> c
      | Some l \<Rightarrow> l)"

definition lower :: "string \<Rightarrow> string" where
  "lower s = map to_lower s"

text \<open>
  \<open>str.strip\<close> with no argument removes whitespace at both ends; the ASCII whitespace
  characters are U+0009 to U+000D, U+001C to U+001F and the blank.
\<close>

definition is_space :: "char \<Rightarrow> bool" where
  "is_space c \<longleftrightarrow>
     c \<in> set [CHR 0x09, CHR 0x0A, CHR 0x0B, CHR 0x0C, CHR 0x0D,
              CHR 0x1C, CHR 0x1D, CHR 0x1E, CHR 0x1F, CHR 0x20]"

definition strip :: "string \<Rightarrow> string" where
  "strip s = rev (dropWhile is_space (rev (dropWhile is_space s)))"

definition startswith :: "string \<Rightarrow> string \<Rightarrow> bool" where
  "startswith s p = prefix p s"

definition endswith :: "string \<Rightarrow> string \<Rightarrow> bool" where
  "endswith s p = prefix (rev p) (rev s)"

text \<open>
  Decimal digits. A \<open>digitpart\<close> of Python's number grammar is a run of digits in which
  single underscores may separate digits. \<open>digitpart\<close> reads the longest one at the
  start of a string and returns its value, its number of digits and the rest.
\<close>

definition is_digit :: "char \<Rightarrow> bool" where
  "is_digit c \<longleftrightarrow> c \<in> set ''0123456789''"

definition digit_val :: "char \<Rightarrow> nat" where
  "digit_val c = (case map_of (zip ''0123456789'' [0, 1, 2, 3, 4, 5, 6, 7, 8, 9]) c of
                    None \<Rightarrow> 0
                  | Some n \<Rightarrow> n)"

fun digitpart_rest :: "nat \<Rightarrow> nat \<Rightarrow> string \<Rightarrow> nat \<times> nat \<times> string" where
  "digitpart_rest a k [] = (a, k, [])"
| "digitpart_rest a k [c] =
     (if is_digit c then (10 * a + digit_val c, k + 1, []) else (a, k, [c]))"
| "digitpart_rest a k (c # d # ds) =
     (if is_digit c then digitpart_rest (10 * a + digit_val c) (k + 1) (d # ds)
      else if c = CHR ''_'' \<and> is_digit d then
        digitpart_rest (10 * a + digit_val d) (k + 1) ds
      else (a, k, c # d # ds))"

definition digitpart :: "string \<Rightarrow> (nat \<times> nat \<times> string) option" where
  "digitpart s =
     (case s of
        [] \<Rightarrow> None
      | c # cs \<Rightarrow> if is_digit c then Some (digitpart_rest (digit_val c) 1 cs) else None)"

text \<open>A string that is one \<open>digitpart\<close> and nothing else.\<close>

definition unsigned_int :: "string \<Rightarrow> nat option" where
  "unsigned_int s =
     (case digitpart s of
        None \<Rightarrow> None
      | Some (n, k, r) \<Rightarrow> if r = [] then Some n else None)"

text \<open>
  \<open>int(s)\<close> for a string: surrounding whitespace is ignored, then an optional sign and
  one \<open>digitpart\<close>; anything else raises \<open>ValueError\<close>.
\<close>

definition py_int :: "string \<Rightarrow> error + int" where
  "py_int s =
     (case strip s of
        [] \<Rightarrow> Inl ValueError
      | c # cs \<Rightarrow>
          if c = CHR ''-'' then
            (case unsigned_int cs of None \<Rightarrow> Inl ValueError | Some n \<Rightarrow> Inr (- int n))
          else if c = CHR ''+'' then
            (case unsigned_int cs of None \<Rightarrow> Inl ValueError | Some n \<Rightarrow> Inr (int n))
          else
            (case unsigned_int (c # cs) of None \<Rightarrow> Inl ValueError | Some n \<Rightarrow> Inr (int n)))"

text \<open>
  \<open>float(s)\<close>. The grammar is Python's: whitespace, an optional sign, then \<open>inf\<close>,
  \<open>infinity\<close> or \<open>nan\<close> in any case, or a decimal number with an optional fraction
  and an optional exponent. The value of a decimal number is kept exactly, as mantissa
  and decimal exponent: the rounding of a double is not modelled, nor its overflow to
  infinity.
\<close>

datatype pyfloat = Finite int int | Infinity | NaN

definition exponent_part :: "int \<Rightarrow> int \<Rightarrow> string \<Rightarrow> pyfloat option" where
  "exponent_part m e r =
     (case r of
        [] \<Rightarrow> Some (Finite m e)
      | c # cs \<Rightarrow>
          if c = CHR ''e'' \<or> c = CHR ''E'' then
            (case cs of
               [] \<Rightarrow> None
             | s # ds \<Rightarrow>
                 if s = CHR ''-'' then
                   (case unsigned_int ds of None \<Rightarrow> None | Some x \<Rightarrow> Some (Finite m (e - int x)))
                 else if s = CHR ''+'' then
                   (case unsigned_int ds of None \<Rightarrow> None | Some x \<Rightarrow> Some (Finite m (e + int x)))
                 else
                   (case unsigned_int cs of None \<Rightarrow> None | Some x \<Rightarrow> Some (Finite m (e + int x))))
          else None)"

definition fraction_part :: "nat \<Rightarrow> string \<Rightarrow> pyfloat option" where
  "fraction_part i r =
     (case digitpart r of
        None \<Rightarrow> exponent_part (int i) 0 r
      | Some (f, k, r') \<Rightarrow> exponent_part (int (i * 10 ^ k + f)) (- int k) r')"

definition abs_float :: "string \<Rightarrow> pyfloat option" where
  "abs_float r =
     (if lower r = ''inf'' \<or> lower r = ''infinity'' then Some Infinity
      else if lower r = ''nan'' then Some NaN
      else
        (case digitpart r of
           Some (i, k, r1) \<Rightarrow>
             (case r1 of
                [] \<Rightarrow> Some (Finite (int i) 0)
              | c # r2 \<Rightarrow> if c = CHR ''.'' then fraction_part i r2
                          else exponent_part (int i) 0 r1)
         | None \<Rightarrow>
             (case r of
                [] \<Rightarrow> None
              | c # r2 \<Rightarrow>
                  if c = CHR ''.'' then
                    (case digitpart r2 of
                       None \<Rightarrow> None
                     | Some (f, k, r3) \<Rightarrow> exponent_part (int f) (- int k) r3)
                  else None)))"

definition negate :: "pyfloat \<Rightarrow> pyfloat" where
  "negate x = (case x of Finite m e \<Rightarrow> Finite (- m) e | Infinity \<Rightarrow> Infinity | NaN \<Rightarrow> NaN)"

definition py_float :: "string \<Rightarrow> error + pyfloat" where
  "py_float s =
     (case strip s of
        [] \<Rightarrow> Inl ValueError
      | c # cs \<Rightarrow>
          (case (if c = CHR ''-'' then map_option negate (abs_float cs)
                 else if c = CHR ''+'' then abs_float cs
                 else abs_float (c # cs)) of
             None \<Rightarrow> Inl ValueError
           | Some x \<Rightarrow> Inr x))"

text \<open>
  \<open>int(x * mult)\<close> for a float \<open>x\<close> and a positive integer \<open>mult\<close>: truncation
  towards zero; \<open>int\<close> raises \<open>OverflowError\<close> on an infinity and \<open>ValueError\<close> on a
  NaN.
\<close>

definition int_of_product :: "pyfloat \<Rightarrow> int \<Rightarrow> error + int" where
  "int_of_product x mult =
     (case x of
        Finite m e \<Rightarrow>
          Inr (if 0 \<le> e then m * 10 ^ nat e * mult
               else sgn m * ((\<bar>m\<bar> * mult) div 10 ^ nat (- e)))
      | Infinity \<Rightarrow> Inl OverflowError
      | NaN \<Rightarrow> Inl ValueError)"

text \<open>The decimal text of an integer, as an f-string prints it.\<close>

function str_nat :: "nat \<Rightarrow> string" where
  "str_nat n =
     (if n < 10 then [''0123456789'' ! n]
      else str_nat (n div 10) @ [''0123456789'' ! (n mod 10)])"
  by pat_completeness auto
termination
  by (relation "measure id") auto

declare str_nat.simps [simp del]

definition py_str :: "int \<Rightarrow> string" where
  "py_str i = (if i < 0 then CHR ''-'' # str_nat (nat (- i)) else str_nat (nat i))"

section \<open>Record store: \<open>DatasetDatabase\<close>\<close>

text \<open>
  One decoded JSON object, as \<open>insert_post\<close> and \<open>insert_batch\<close> read it through
  \<open>data.get(key)\<close>: \<open>None\<close> stands for a missing key or a JSON null. Each field has the
  type of the column it is stored in.
\<close>

record post_data =
  d_id :: "int option"
  d_md5 :: "string option"
  d_url :: "string option"
  d_file_url :: "string option"
  d_tags :: "string option"
  d_tag_string :: "string option"
  d_rating :: "string option"
  d_file_ext :: "string option"
  d_source :: "string option"
  d_created_at :: "string option"
  d_score :: "int option"
  d_fav_count :: "int option"
  d_image_width :: "int option"
  d_image_height :: "int option"
  d_file_size :: "int option"
  d_description :: "string option"
  d_regular_summary :: "string option"
  d_individual_parts :: "string option"
  d_midjourney_style_summary :: "string option"
  d_deviantart_commission_request :: "string option"
  d_brief_summary :: "string option"

text \<open>
  One row of the table \<open>posts\<close>. \<open>row_id\<close> is the column \<open>id INTEGER PRIMARY KEY
  AUTOINCREMENT\<close>; \<open>post_id\<close> is declared \<open>NOT NULL\<close>, so it is not optional; \<open>md5\<close>
  is declared \<open>UNIQUE\<close>.
\<close>

record row =
  row_id :: int
  post_id :: int
  md5 :: "string option"
  url :: "string option"
  tags :: "string option"
  tag_string :: "string option"
  rating :: "string option"
  file_ext :: "string option"
  source :: "string option"
  created_at :: "string option"
  score :: "int option"
  fav_count :: "int option"
  image_width :: "int option"
  image_height :: "int option"
  file_size :: "int option"
  description :: "string option"
  regular_summary :: "string option"
  individual_parts :: "string option"
  midjourney_style_summary :: "string option"
  deviantart_commission_request :: "string option"
  brief_summary :: "string option"

text \<open>
  The database: the rows of \<open>posts\<close> in insertion order, and the table
  \<open>processed_files\<close> as pairs of \<open>filename\<close> and \<open>file_hash\<close>.
\<close>

record db =
  posts :: "row list"
  processed_files :: "(string \<times> string option) list"

definition empty_db :: db where
  "empty_db = \<lparr>posts = [], processed_files = []\<rparr>"

definition is_file_processed :: "db \<Rightarrow> string \<Rightarrow> bool" where
  "is_file_processed d filename \<longleftrightarrow> filename \<in> set (map fst (processed_files d))"

text \<open>\<open>INSERT OR REPLACE\<close>: a row with the same unique \<open>filename\<close> is replaced.\<close>

definition mark_file_processed :: "db \<Rightarrow> string \<Rightarrow> string option \<Rightarrow> db" where
  "mark_file_processed d filename file_hash =
     d\<lparr>processed_files :=
         filter (\<lambda>e. fst e \<noteq> filename) (processed_files d) @ [(filename, file_hash)]\<rparr>"

text \<open>Python truthiness of an optional string: neither \<open>None\<close> nor empty.\<close>

definition truthy :: "string option \<Rightarrow> bool" where
  "truthy v = (case v of None \<Rightarrow> False | Some x \<Rightarrow> x \<noteq> [])"


text \<open>\<open>data.get('url') or data.get('file_url')\<close>.\<close>

definition url_or_file_url :: "post_data \<Rightarrow> string option" where
  "url_or_file_url data = (if truthy (d_url data) then d_url data else d_file_url data)"

definition new_row :: "int \<Rightarrow> int \<Rightarrow> post_data \<Rightarrow> row" where
  "new_row rid pid data =
     \<lparr>row_id = rid, post_id = pid, md5 = d_md5 data, url = url_or_file_url data,
      tags = d_tags data, tag_string = d_tag_string data, rating = d_rating data,
      file_ext = d_file_ext data, source = d_source data, created_at = d_created_at data,
      score = d_score data, fav_count = d_fav_count data,
      image_width = d_image_width data, image_height = d_image_height data,
      file_size = d_file_size data, description = d_description data,
      regular_summary = d_regular_summary data, individual_parts = d_individual_parts data,
      midjourney_style_summary = d_midjourney_style_summary data,
      deviantart_commission_request = d_deviantart_commission_request data,
      brief_summary = d_brief_summary data\<rparr>"

text \<open>
  The \<open>UNIQUE\<close> constraint on \<open>md5\<close>: violated by a value that is not NULL and that a
  stored row already has (SQLite counts every NULL as distinct).
\<close>

definition md5_taken :: "db \<Rightarrow> string option \<Rightarrow> bool" where
  "md5_taken d h = (case h of None \<Rightarrow> False | Some x \<Rightarrow> (\<exists>r \<in> set (posts d). md5 r = Some x))"

text \<open>
  The statement \<open>INSERT INTO posts (...) VALUES (...)\<close>, shared by \<open>insert_post\<close> and
  \<open>insert_batch\<close>. It raises \<open>IntegrityError\<close> when \<open>post_id\<close> would be NULL or
  \<open>md5\<close> would repeat; otherwise the row is appended, with the next value of the
  autoincrement key (no operation deletes a row, so that is the row count plus one).
\<close>

definition insert_row :: "db \<Rightarrow> post_data \<Rightarrow> error + db" where
  "insert_row d data =
     (case d_id data of
        None \<Rightarrow> Inl IntegrityError
      | Some pid \<Rightarrow>
          if md5_taken d (d_md5 data) then Inl IntegrityError
          else Inr (d\<lparr>posts := posts d @ [new_row (int (length (posts d)) + 1) pid data]\<rparr>))"


text \<open>The loop of \<open>insert_batch\<close>, with the counter \<open>inserted\<close>.\<close>

fun insert_batch_loop :: "db \<Rightarrow> nat \<Rightarrow> post_data list \<Rightarrow> error + (nat \<times> db)" where
  "insert_batch_loop d inserted [] = Inr (inserted, d)"
| "insert_batch_loop d inserted (data # rest) =
     (case insert_row d data of
        Inr d' \<Rightarrow> insert_batch_loop d' (inserted + 1) rest
      | Inl IntegrityError \<Rightarrow> insert_batch_loop d inserted rest
      | Inl e \<Rightarrow> Inl e)"

definition insert_batch :: "db \<Rightarrow> post_data list \<Rightarrow> error + (nat \<times> db)" where
  "insert_batch d ps = insert_batch_loop d 0 ps"

definition get_total_count :: "db \<Rightarrow> nat" where
  "get_total_count d = length (posts d)"

section \<open>Query compiler: \<open>DatasetDatabase.search_posts\<close>\<close>

subsection \<open>The size grammar: \<open>_parse_filesize\<close>\<close>

text \<open>
  A value handed to \<open>_add_numeric_condition\<close>: the text of a query token, or what
  \<open>_parse_filesize\<close> returns, an integer or an operator followed by an integer.
\<close>

datatype numeric_value = IntValue int | StrValue string

text \<open>The dictionary \<open>multipliers\<close>, in its insertion order, which is the order of the loop.\<close>

definition multipliers :: "(string \<times> int) list" where
  "multipliers = [(''b'', 1), (''kb'', 1024), (''mb'', 1024 * 1024), (''gb'', 1024 * 1024 * 1024)]"

text \<open>
  The chain \<open>if num.startswith('>=') ... else\<close>, which occurs twice in
  \<open>_parse_filesize\<close>; \<open>conv\<close> is the conversion applied to the digits:
  \<open>int(float(...) * mult)\<close> under a suffix, \<open>int(...)\<close> without one.
\<close>

definition with_operator :: "string \<Rightarrow> (string \<Rightarrow> error + int) \<Rightarrow> error + numeric_value" where
  "with_operator num conv =
     (if startswith num ''>='' then
        (case conv (drop 2 num) of Inl e \<Rightarrow> Inl e | Inr n \<Rightarrow> Inr (StrValue (''>='' @ py_str n)))
      else if startswith num ''<='' then
        (case conv (drop 2 num) of Inl e \<Rightarrow> Inl e | Inr n \<Rightarrow> Inr (StrValue (''<='' @ py_str n)))
      else if startswith num ''>'' then
        (case conv (drop 1 num) of Inl e \<Rightarrow> Inl e | Inr n \<Rightarrow> Inr (StrValue (''>'' @ py_str n)))
      else if startswith num ''<'' then
        (case conv (drop 1 num) of Inl e \<Rightarrow> Inl e | Inr n \<Rightarrow> Inr (StrValue (''<'' @ py_str n)))
      else
        (case conv num of Inl e \<Rightarrow> Inl e | Inr n \<Rightarrow> Inr (IntValue n)))"

text \<open>\<open>except ValueError: return None\<close>; any other exception propagates.\<close>

definition except_value_error :: "error + numeric_value \<Rightarrow> error + numeric_value option" where
  "except_value_error r =
     (case r of
        Inr v \<Rightarrow> Inr (Some v)
      | Inl ValueError \<Rightarrow> Inr None
      | Inl e \<Rightarrow> Inl e)"

definition float_times :: "int \<Rightarrow> string \<Rightarrow> error + int" where
  "float_times mult s = (case py_float s of Inl e \<Rightarrow> Inl e | Inr x \<Rightarrow> int_of_product x mult)"

text \<open>
  The loop returns at the first entry of \<open>multipliers\<close> whose suffix ends the value,
  whether the number before it parses or not.
\<close>

definition parse_filesize :: "string \<Rightarrow> error + numeric_value option" where
  "parse_filesize v =
     (let val = strip (lower v) in
      case find (\<lambda>(sfx, mult). endswith val sfx) multipliers of
        Some (sfx, mult) \<Rightarrow>
          except_value_error
            (with_operator (take (length val - length sfx) val) (float_times mult))
      | None \<Rightarrow> except_value_error (with_operator val py_int))"

subsection \<open>The compiled statement\<close>

text \<open>
  The SQL text is a sequence of fragments appended to
  \<open>SELECT id, post_id, tag_string FROM posts WHERE 1=1\<close>, and closed by
  \<open>ORDER BY post_id DESC LIMIT ?\<close>. The model keeps the list of appended fragments,
  each with the text \<open>sql_text\<close> gives, and the list \<open>params\<close> as the code builds it.
\<close>

datatype column =
  Col_score | Col_fav_count | Col_image_width | Col_image_height | Col_file_size | Col_post_id

datatype comparison = Cmp_eq | Cmp_ge | Cmp_le | Cmp_gt | Cmp_lt

datatype fragment =
  Rating_ne
| File_ext_ne
| Tag_not_like
| Rating_eq
| File_ext_eq
| Tag_like
| Compare column comparison
| Or_likes nat

datatype param = Text string | Number int





text \<open>The number of \<open>?\<close> placeholders of a fragment.\<close>

definition arity :: "fragment \<Rightarrow> nat" where
  "arity f = (case f of Or_likes n \<Rightarrow> n | _ \<Rightarrow> 1)"

subsection \<open>\<open>_add_numeric_condition\<close>\<close>

text \<open>
  With an operator prefix, \<open>int\<close> is called outside any \<open>try\<close>: its \<open>ValueError\<close>
  leaves the function. Without a prefix, the fragment is appended to \<open>sql\<close> before
  \<open>int\<close> is called inside the \<open>try\<close>: on \<open>ValueError\<close> the fragment stays and no
  parameter is appended.
\<close>

definition add_numeric_condition ::
  "fragment list \<Rightarrow> param list \<Rightarrow> column \<Rightarrow> numeric_value \<Rightarrow> error + (fragment list \<times> param list)"
where
  "add_numeric_condition sql params col v =
     (case v of
        IntValue n \<Rightarrow> Inr (sql @ [Compare col Cmp_eq], params @ [Number n])
      | StrValue s \<Rightarrow>
          if startswith s ''>='' then
            (case py_int (drop 2 s) of
               Inl e \<Rightarrow> Inl e
             | Inr n \<Rightarrow> Inr (sql @ [Compare col Cmp_ge], params @ [Number n]))
          else if startswith s ''<='' then
            (case py_int (drop 2 s) of
               Inl e \<Rightarrow> Inl e
             | Inr n \<Rightarrow> Inr (sql @ [Compare col Cmp_le], params @ [Number n]))
          else if startswith s ''>'' then
            (case py_int (drop 1 s) of
               Inl e \<Rightarrow> Inl e
             | Inr n \<Rightarrow> Inr (sql @ [Compare col Cmp_gt], params @ [Number n]))
          else if startswith s ''<'' then
            (case py_int (drop 1 s) of
               Inl e \<Rightarrow> Inl e
             | Inr n \<Rightarrow> Inr (sql @ [Compare col Cmp_lt], params @ [Number n]))
          else
            (case py_int s of
               Inr n \<Rightarrow> Inr (sql @ [Compare col Cmp_eq], params @ [Number n])
             | Inl ValueError \<Rightarrow> Inr (sql @ [Compare col Cmp_eq], params)
             | Inl e \<Rightarrow> Inl e))"

subsection \<open>The loop over the terms\<close>

text \<open>The variables \<open>sql\<close>, \<open>params\<close> and \<open>or_tags\<close> of \<open>search_posts\<close>.\<close>

record compiler =
  sql :: "fragment list"
  params :: "param list"
  or_tags :: "string list"

definition compiler_start :: compiler where
  "compiler_start = \<lparr>sql = [], params = [], or_tags = []\<rparr>"

text \<open>\<open>sql += fragment; params.append(p)\<close>.\<close>

definition add_condition :: "compiler \<Rightarrow> fragment \<Rightarrow> param \<Rightarrow> compiler" where
  "add_condition st f p = st\<lparr>sql := sql st @ [f], params := params st @ [p]\<rparr>"

text \<open>\<open>f"%{t}%"\<close>.\<close>

definition percent :: "string \<Rightarrow> string" where
  "percent t = ''%'' @ t @ ''%''"

text \<open>\<open>sql, params = self._add_numeric_condition(sql, params, column, value)\<close>.\<close>

definition numeric_condition :: "compiler \<Rightarrow> column \<Rightarrow> numeric_value \<Rightarrow> error + compiler" where
  "numeric_condition st col v =
     (case add_numeric_condition (sql st) (params st) col v of
        Inl e \<Rightarrow> Inl e
      | Inr (s, p) \<Rightarrow> Inr (st\<lparr>sql := s, params := p\<rparr>))"

text \<open>\<open>key, value = t.split(':', 1)\<close>, for a \<open>t\<close> that contains a colon.\<close>

definition split_key :: "string \<Rightarrow> string" where
  "split_key t = takeWhile (\<lambda>c. c \<noteq> CHR '':'') t"

definition split_value :: "string \<Rightarrow> string" where
  "split_value t = drop 1 (dropWhile (\<lambda>c. c \<noteq> CHR '':'') t)"

text \<open>\<open>term.replace('*', '%')\<close>.\<close>

definition replace_stars :: "string \<Rightarrow> string" where
  "replace_stars t = map (\<lambda>c. if c = CHR ''*'' then CHR ''%'' else c) t"

text \<open>One iteration of \<open>for term in terms\<close>.\<close>

definition compile_term :: "compiler \<Rightarrow> string \<Rightarrow> error + compiler" where
  "compile_term st t =
     (if startswith t ''~'' then Inr (st\<lparr>or_tags := or_tags st @ [drop 1 t]\<rparr>)
      else if startswith t ''-'' then
        (let neg_term = drop 1 t in
         if CHR '':'' \<in> set neg_term then
           (let key = lower (split_key neg_term); val = split_value neg_term in
            if key = ''rating'' then Inr (add_condition st Rating_ne (Text (take 1 (lower val))))
            else if key = ''type'' then Inr (add_condition st File_ext_ne (Text (lower val)))
            else Inr (add_condition st Tag_not_like (Text (percent neg_term))))
         else Inr (add_condition st Tag_not_like (Text (percent neg_term))))
      else if CHR '':'' \<in> set t then
        (let key = lower (split_key t); val = split_value t in
         if key = ''rating'' then Inr (add_condition st Rating_eq (Text (take 1 (lower val))))
         else if key = ''score'' then numeric_condition st Col_score (StrValue val)
         else if key \<in> set [''favcount'', ''fav_count'', ''favorites''] then
           numeric_condition st Col_fav_count (StrValue val)
         else if key \<in> set [''type'', ''filetype'', ''file_type''] then
           Inr (add_condition st File_ext_eq (Text (lower val)))
         else if key = ''width'' then numeric_condition st Col_image_width (StrValue val)
         else if key = ''height'' then numeric_condition st Col_image_height (StrValue val)
         else if key \<in> set [''filesize'', ''file_size'', ''size''] then
           (case parse_filesize val of
              Inl e \<Rightarrow> Inl e
            | Inr None \<Rightarrow> Inr st
            | Inr (Some size_bytes) \<Rightarrow> numeric_condition st Col_file_size size_bytes)
         else if key = ''id'' then numeric_condition st Col_post_id (StrValue val)
         else Inr (add_condition st Tag_like (Text (percent t))))
      else if CHR ''*'' \<in> set t then
        Inr (add_condition st Tag_like (Text (percent (replace_stars t))))
      else Inr (add_condition st Tag_like (Text (percent t))))"

fun compile_terms :: "compiler \<Rightarrow> string list \<Rightarrow> error + compiler" where
  "compile_terms st [] = Inr st"
| "compile_terms st (t # ts) =
     (case compile_term st t of Inl e \<Rightarrow> Inl e | Inr st' \<Rightarrow> compile_terms st' ts)"

text \<open>The block \<open>if or_tags:\<close> after the loop.\<close>

definition add_or_tags :: "compiler \<Rightarrow> compiler" where
  "add_or_tags st =
     (if or_tags st \<noteq> [] then
        st\<lparr>sql := sql st @ [Or_likes (length (or_tags st))],
           params := params st @ map (\<lambda>tag. Text (percent tag)) (or_tags st)\<rparr>
      else st)"

text \<open>
  Everything before \<open>cursor.execute\<close>: the fragments and the parameters, the limit
  last. \<open>if query:\<close> skips both \<open>None\<close> and the empty string.
\<close>

definition build_query :: "string option \<Rightarrow> int \<Rightarrow> error + (fragment list \<times> param list)" where
  "build_query query limit =
     (case query of
        None \<Rightarrow> Inr ([], [Number limit])
      | Some q \<Rightarrow>
          if q = [] then Inr ([], [Number limit])
          else
            (case compile_terms compiler_start (parse_search_query q) of
               Inl e \<Rightarrow> Inl e
             | Inr st \<Rightarrow> Inr (sql (add_or_tags st), params (add_or_tags st) @ [Number limit])))"

subsection \<open>Executing the statement\<close>

text \<open>
  SQLite's \<open>LIKE\<close>: \<open>%\<close> matches any run of characters, \<open>_\<close> any one character, and
  any other character matches itself, ASCII letters regardless of case.
\<close>

fun like :: "string \<Rightarrow> string \<Rightarrow> bool" where
  "like [] [] = True"
| "like [] (c # cs) = False"
| "like (p # ps) [] = (p = CHR ''%'' \<and> like ps [])"
| "like (p # ps) (c # cs) =
     (if p = CHR ''%'' then like ps (c # cs) \<or> like (p # ps) cs
      else if p = CHR ''_'' then like ps cs
      else to_lower p = to_lower c \<and> like ps cs)"

definition column_value :: "column \<Rightarrow> row \<Rightarrow> int option" where
  "column_value c r =
     (case c of
        Col_score \<Rightarrow> score r
      | Col_fav_count \<Rightarrow> fav_count r
      | Col_image_width \<Rightarrow> image_width r
      | Col_image_height \<Rightarrow> image_height r
      | Col_file_size \<Rightarrow> file_size r
      | Col_post_id \<Rightarrow> Some (post_id r))"

definition compare :: "comparison \<Rightarrow> int \<Rightarrow> int \<Rightarrow> bool" where
  "compare op a b =
     (case op of Cmp_eq \<Rightarrow> a = b | Cmp_ge \<Rightarrow> a \<ge> b | Cmp_le \<Rightarrow> a \<le> b | Cmp_gt \<Rightarrow> a > b
      | Cmp_lt \<Rightarrow> a < b)"

definition tag_like :: "row \<Rightarrow> param \<Rightarrow> bool" where
  "tag_like r p =
     (case (tag_string r, p) of (Some t, Text pat) \<Rightarrow> like pat t | _ \<Rightarrow> False)"

text \<open>
  Whether a row satisfies a fragment under the parameters bound to its placeholders.
  A comparison with NULL is not true, so the row is left out. The compiler binds a
  text to every fragment but a comparison, and an integer to a comparison; the other
  bindings do not occur and count as not satisfied.
\<close>

fun holds :: "fragment \<Rightarrow> param list \<Rightarrow> row \<Rightarrow> bool" where
  "holds Rating_ne [Text p] r = (rating r = None \<or> rating r \<noteq> Some p)"
| "holds File_ext_ne [Text p] r = (file_ext r = None \<or> file_ext r \<noteq> Some p)"
| "holds Tag_not_like [Text p] r =
     (case tag_string r of None \<Rightarrow> False | Some t \<Rightarrow> \<not> like p t)"
| "holds Rating_eq [Text p] r = (rating r = Some p)"
| "holds File_ext_eq [Text p] r = (file_ext r = Some p)"
| "holds Tag_like [Text p] r = tag_like r (Text p)"
| "holds (Compare c op) [Number n] r =
     (case column_value c r of None \<Rightarrow> False | Some x \<Rightarrow> compare op x n)"
| "holds (Or_likes n) qs r = list_ex (tag_like r) qs"
| "holds _ _ _ = False"

text \<open>The \<open>WHERE\<close> clause: every fragment holds, each with its own parameters.\<close>

fun where_holds :: "fragment list \<Rightarrow> param list \<Rightarrow> row \<Rightarrow> bool" where
  "where_holds [] ps r = True"
| "where_holds (f # fs) ps r =
     (holds f (take (arity f) ps) r \<and> where_holds fs (drop (arity f) ps) r)"

text \<open>\<open>ORDER BY post_id DESC\<close>; rows with equal \<open>post_id\<close> keep their stored order.\<close>

definition order_by_post_id_desc :: "row list \<Rightarrow> row list" where
  "order_by_post_id_desc rs = sort_key (\<lambda>r. - post_id r) rs"

text \<open>\<open>LIMIT n\<close>; SQLite reads a negative \<open>n\<close> as no limit.\<close>

definition sql_limit :: "int \<Rightarrow> 'a list \<Rightarrow> 'a list" where
  "sql_limit n xs = (if n < 0 then xs else take (nat n) xs)"

text \<open>\<open>SELECT id, post_id, tag_string\<close>.\<close>

definition selected :: "row \<Rightarrow> int \<times> int \<times> string option" where
  "selected r = (row_id r, post_id r, tag_string r)"

text \<open>
  \<open>cursor.execute(sql, params)\<close> and \<open>fetchall\<close>. The binding raises
  \<open>ProgrammingError\<close> unless there is exactly one parameter for each placeholder,
  those of the fragments and the one of \<open>LIMIT\<close>.
\<close>

definition execute :: "db \<Rightarrow> fragment list \<Rightarrow> param list \<Rightarrow> error + (int \<times> int \<times> string option) list" where
  "execute d fs ps =
     (if length ps \<noteq> sum_list (map arity fs) + 1 then Inl ProgrammingError
      else
        (case last ps of
           Number limit \<Rightarrow>
             Inr (sql_limit limit
                    (map selected
                       (order_by_post_id_desc (filter (where_holds fs (butlast ps)) (posts d)))))
         | Text t \<Rightarrow> Inl ProgrammingError))"

definition search_posts :: "db \<Rightarrow> string option \<Rightarrow> int \<Rightarrow> error + (int \<times> int \<times> string option) list" where
  "search_posts d query limit =
     (case build_query query limit of
        Inl e \<Rightarrow> Inl e
      | Inr (fs, ps) \<Rightarrow> execute d fs ps)"


section \<open>Stream ingestor: \<open>DatasetDownloader\<close>\<close>

subsection \<open>The remote source and the decoder\<close>

text \<open>
  What the worker sees of one download, in the order it sees it. \<open>requests.get\<close> or
  \<open>raise_for_status\<close> may raise (\<open>Refused\<close>: a network error or a status that is not a
  success). Otherwise \<open>iter_content\<close> yields chunks; the controlling thread may call
  \<open>cancel()\<close> between two of them (\<open>Cancel\<close>), and the connection may break, in which
  case \<open>iter_content\<close> raises (\<open>Broken\<close>).
\<close>

datatype event = Chunk string | Cancel | Broken

datatype fetch = Refused | Stream "event list"

text \<open>
  \<open>json.loads\<close> is a parameter of the model: a function that returns the decoded object,
  or \<open>None\<close> where \<open>json.loads\<close> raises \<open>JSONDecodeError\<close>.
\<close>

type_synonym decoder = "string \<Rightarrow> post_data option"

subsection \<open>\<open>_stream_process_file\<close>\<close>

text \<open>
  The local variables of \<open>_stream_process_file\<close>, with the database they write to, the
  shared \<open>cancel_flag\<close>, and the exception that ended the \<open>try\<close> block, if any.
\<close>

record stream =
  s_db :: db
  batch :: "post_data list"
  posts_added :: nat
  buffer :: string
  flag :: bool
  raised :: "error option"

definition batch_size :: nat where
  "batch_size = 1000"

text \<open>\<open>line, buffer = buffer.split('\n', 1)\<close>, or \<open>None\<close> when there is no newline.\<close>

fun split_newline :: "string \<Rightarrow> (string \<times> string) option" where
  "split_newline [] = None"
| "split_newline (c # cs) =
     (if c = newline then Some ([], cs)
      else (case split_newline cs of None \<Rightarrow> None | Some (line, rest) \<Rightarrow> Some (c # line, rest)))"

text \<open>The body of the \<open>while\<close> loop, for one line.\<close>

definition process_line :: "decoder \<Rightarrow> stream \<Rightarrow> string \<Rightarrow> stream" where
  "process_line decode s line =
     (if strip line = [] then s
      else
        (case decode line of
           None \<Rightarrow> s
         | Some data \<Rightarrow>
             if length (batch s @ [data]) \<ge> batch_size then
               (case insert_batch (s_db s) (batch s @ [data]) of
                  Inl e \<Rightarrow> s\<lparr>batch := batch s @ [data], raised := Some e\<rparr>
                | Inr (added, d') \<Rightarrow>
                    s\<lparr>s_db := d', batch := [], posts_added := posts_added s + added\<rparr>)
             else s\<lparr>batch := batch s @ [data]\<rparr>))"

lemma split_newline_shorter:
  "split_newline b = Some (line, rest) \<Longrightarrow> length rest < length b"
  by (induction b arbitrary: line) (auto split: if_splits option.splits)

lemma buffer_process_line: "buffer (process_line decode s line) = buffer s"
  by (simp add: process_line_def split: option.splits sum.splits)

text \<open>\<open>while '\n' in buffer\<close>.\<close>

function process_lines :: "decoder \<Rightarrow> stream \<Rightarrow> stream" where
  "process_lines decode s =
     (case split_newline (buffer s) of
        None \<Rightarrow> s
      | Some (line, rest) \<Rightarrow>
          if raised (process_line decode (s\<lparr>buffer := rest\<rparr>) line) \<noteq> None then
            process_line decode (s\<lparr>buffer := rest\<rparr>) line
          else process_lines decode (process_line decode (s\<lparr>buffer := rest\<rparr>) line))"
  by pat_completeness auto
termination
  by (relation "measure (\<lambda>(decode, s). length (buffer s))")
     (auto simp: buffer_process_line split_newline_shorter)

declare process_lines.simps [simp del]

text \<open>
  \<open>for chunk in response.iter_content(...)\<close>: the flag is tested before each chunk, an
  empty chunk is skipped.
\<close>

fun consume :: "decoder \<Rightarrow> stream \<Rightarrow> event list \<Rightarrow> stream" where
  "consume decode s [] = s"
| "consume decode s (Cancel # es) = consume decode (s\<lparr>flag := True\<rparr>) es"
| "consume decode s (Broken # es) = s\<lparr>raised := Some RequestError\<rparr>"
| "consume decode s (Chunk c # es) =
     (if flag s then s
      else if c = [] then consume decode s es
      else if raised (process_lines decode (s\<lparr>buffer := buffer s @ c\<rparr>)) \<noteq> None then
        process_lines decode (s\<lparr>buffer := buffer s @ c\<rparr>)
      else consume decode (process_lines decode (s\<lparr>buffer := buffer s @ c\<rparr>)) es)"

text \<open>
  The statements after the loop, reached when the loop ends or is left by \<open>break\<close>: the
  remaining buffer is decoded as a last record, the remaining batch is inserted.
\<close>

definition last_record :: "decoder \<Rightarrow> stream \<Rightarrow> stream" where
  "last_record decode s =
     (if strip (buffer s) = [] then s
      else (case decode (buffer s) of None \<Rightarrow> s | Some data \<Rightarrow> s\<lparr>batch := batch s @ [data]\<rparr>))"

definition last_batch :: "stream \<Rightarrow> stream" where
  "last_batch s =
     (if batch s = [] then s
      else
        (case insert_batch (s_db s) (batch s) of
           Inl e \<Rightarrow> s\<lparr>raised := Some e\<rparr>
         | Inr (added, d') \<Rightarrow> s\<lparr>s_db := d', posts_added := posts_added s + added\<rparr>))"

text \<open>
  The whole function. Every exception is caught by \<open>except Exception\<close>, and
  \<open>posts_added\<close> is returned in all cases. The result is that count, the database and
  the cancellation flag.
\<close>

definition stream_process_file :: "decoder \<Rightarrow> db \<Rightarrow> bool \<Rightarrow> fetch \<Rightarrow> nat \<times> db \<times> bool" where
  "stream_process_file decode d cancelled f =
     (case f of
        Refused \<Rightarrow> (0, d, cancelled)
      | Stream es \<Rightarrow>
          (let s = consume decode
                     \<lparr>s_db = d, batch = [], posts_added = 0, buffer = [], flag = cancelled,
                      raised = None\<rparr> es;
               s' = (if raised s = None then last_batch (last_record decode s) else s)
           in (posts_added s', s_db s', flag s')))"

subsection \<open>\<open>download_and_process\<close>\<close>

record downloader =
  store :: db
  cancel_flag :: bool
  file_limit :: "int option"
  total_files :: nat
  processed_count :: nat
  current_file :: string
  total_posts_added :: nat
  is_downloading :: bool

text \<open>The state \<open>__init__\<close> sets up; \<open>TEST_FILE_LIMIT\<close> is 3.\<close>

definition new_downloader :: "db \<Rightarrow> downloader" where
  "new_downloader d =
     \<lparr>store = d, cancel_flag = False, file_limit = Some 3, total_files = 0,
      processed_count = 0, current_file = [], total_posts_added = 0, is_downloading = False\<rparr>"

text \<open>
  \<open>get_jsonl_files\<close>; the listing is \<open>None\<close> when \<open>list_repo_files\<close> raises, which is
  caught and gives the empty list.
\<close>

definition get_jsonl_files :: "string list option \<Rightarrow> string list" where
  "get_jsonl_files listing =
     (case listing of
        None \<Rightarrow> []
      | Some all_files \<Rightarrow> sort (filter (\<lambda>f. endswith f ''.jsonl'') all_files))"

text \<open>The slice \<open>xs[:n]\<close>: a negative \<open>n\<close> counts from the end.\<close>

definition slice_to :: "int \<Rightarrow> 'a list \<Rightarrow> 'a list" where
  "slice_to n xs = (if 0 \<le> n then take (nat n) xs else take (length xs - nat (- n)) xs)"

text \<open>
  The loop \<open>for i, filename in enumerate(files_to_process)\<close>. \<open>hf_hub_url\<close> only
  builds a string and \<open>_stream_process_file\<close> returns in all cases, so the statements
  of the \<open>try\<close> block after the call are always reached: the file is marked as
  processed.
\<close>

fun download_files :: "decoder \<Rightarrow> (string \<Rightarrow> fetch) \<Rightarrow> downloader \<Rightarrow> string list \<Rightarrow> downloader" where
  "download_files decode remote dl [] = dl"
| "download_files decode remote dl (filename # rest) =
     (if cancel_flag dl then dl
      else
        (case stream_process_file decode (store dl) (cancel_flag dl) (remote filename) of
           (added, d', cancelled) \<Rightarrow>
             download_files decode remote
               (dl\<lparr>current_file := filename,
                   store := mark_file_processed d' filename None,
                   cancel_flag := cancelled,
                   total_posts_added := total_posts_added dl + added,
                   processed_count := processed_count dl + 1\<rparr>)
               rest))"

definition limited :: "int option \<Rightarrow> string list \<Rightarrow> string list" where
  "limited lim files =
     (case lim of None \<Rightarrow> files | Some n \<Rightarrow> if n = 0 then files else slice_to n files)"

definition download_and_process ::
  "decoder \<Rightarrow> string list option \<Rightarrow> (string \<Rightarrow> fetch) \<Rightarrow> downloader \<Rightarrow> downloader"
where
  "download_and_process decode listing remote dl =
     (let jsonl_files = limited (file_limit dl) (get_jsonl_files listing);
          dl1 = dl\<lparr>is_downloading := True, cancel_flag := False,
                   total_files := length jsonl_files, processed_count := 0\<rparr>;
          files_to_process = filter (\<lambda>f. \<not> is_file_processed (store dl1) f) jsonl_files
      in if files_to_process = [] then dl1\<lparr>is_downloading := False\<rparr>
         else (download_files decode remote dl1 files_to_process)\<lparr>is_downloading := False\<rparr>)"

section \<open>Auxiliary notions for the tokenizer proofs\<close>

text \<open>No emitted term is empty or contains a double quote.\<close>

definition clean :: "scanner \<Rightarrow> bool" where
  "clean s \<longleftrightarrow> (\<forall>t \<in> set (terms s). t \<noteq> [] \<and> double_quote \<notin> set t)
               \<and> double_quote \<notin> set (current_term s)"

text \<open>
  The scan drops double quotes and separating blanks only: every other character of
  the input reaches the output, in order.
\<close>

definition contents :: "scanner \<Rightarrow> string" where
  "contents s = concat (terms s) @ current_term s"

section \<open>Auxiliary notions for the store proofs\<close>



text \<open>The row that \<open>insert_row\<close> appends for a record whose \<open>id\<close> is \<open>pid\<close>.\<close>

definition stored :: "db \<Rightarrow> int \<Rightarrow> post_data \<Rightarrow> db" where
  "stored d pid data = d\<lparr>posts := posts d @ [new_row (int (length (posts d)) + 1) pid data]\<rparr>"

text \<open>A JSON object with no key at all, to build examples from.\<close>

definition no_fields :: post_data where
  "no_fields =
     \<lparr>d_id = None, d_md5 = None, d_url = None, d_file_url = None, d_tags = None,
      d_tag_string = None, d_rating = None, d_file_ext = None, d_source = None,
      d_created_at = None, d_score = None, d_fav_count = None, d_image_width = None,
      d_image_height = None, d_file_size = None, d_description = None,
      d_regular_summary = None, d_individual_parts = None,
      d_midjourney_style_summary = None, d_deviantart_commission_request = None,
      d_brief_summary = None\<rparr>"

section \<open>Auxiliary notions for the query proofs\<close>


text \<open>A store of one post whose file has exactly 1048576 bytes.\<close>

definition one_mebibyte_store :: db where
  "one_mebibyte_store =
     \<lparr>posts = [new_row 1 1 (no_fields\<lparr>d_file_size := Some 1048576\<rparr>)],
      processed_files = []\<rparr>"

section \<open>Auxiliary notions for the ingestor proofs\<close>

text \<open>A decoder that knows two lines, \<open>A\<close> and \<open>B\<close>, and rejects every other one.\<close>

definition sample_decoder :: decoder where
  "sample_decoder line =
     (if line = ''A'' then Some (no_fields\<lparr>d_id := Some 1, d_md5 := Some ''a''\<rparr>)
      else if line = ''B'' then Some (no_fields\<lparr>d_id := Some 2, d_md5 := Some ''b''\<rparr>)
      else None)"

text \<open>The two lines, each with its newline.\<close>

definition line_A :: string where
  "line_A = ''A'' @ [newline]"

definition line_B :: string where
  "line_B = ''B'' @ [newline]"

section \<open>Auxiliary notions for the invariant of a whole run\<close>


section \<open>Properties of the tokenizer\<close>

lemma scan_Nil: "scan s [] = s"
  by (simp add: scan_def)

lemma scan_Cons: "scan s (c # cs) = scan (scan_char s c) cs"
  by (simp add: scan_def)

lemma scan_append: "scan s (a @ b) = scan (scan s a) b"
  by (simp add: scan_def)

lemma in_quotes_scan:
  "in_quotes (scan s q) = (in_quotes s \<noteq> odd (count_list q double_quote))"
proof (induction q arbitrary: s)
  case Nil
  show ?case by (simp add: scan_Nil)
next
  case (Cons c cs)
  show ?case by (auto simp: scan_Cons Cons.IH scan_char_def)
qed

text \<open>Characters that are neither a quote nor a separating blank are appended.\<close>

lemma scan_plain:
  "double_quote \<notin> set w \<Longrightarrow> in_quotes s \<or> blank \<notin> set w \<Longrightarrow>
   scan s w = s\<lparr>current_term := current_term s @ w\<rparr>"
proof (induction w arbitrary: s)
  case Nil
  show ?case by (simp add: scan_Nil)
next
  case (Cons c cs)
  have step: "scan_char s c = s\<lparr>current_term := current_term s @ [c]\<rparr>"
    using Cons.prems by (auto simp: scan_char_def)
  have "scan (scan_char s c) cs =
        (scan_char s c)\<lparr>current_term := current_term (scan_char s c) @ cs\<rparr>"
    using Cons.prems by (intro Cons.IH) (auto simp: step)
  then show ?case by (simp add: scan_Cons step)
qed

text \<open>Terms already emitted are never touched again: they stay as a prefix.\<close>

lemma scan_char_terms_prefix:
  "scan_char (s\<lparr>terms := P @ terms s\<rparr>) c = (scan_char s c)\<lparr>terms := P @ terms (scan_char s c)\<rparr>"
  by (simp add: scan_char_def)

lemma scan_terms_prefix:
  "scan (s\<lparr>terms := P @ terms s\<rparr>) q = (scan s q)\<lparr>terms := P @ terms (scan s q)\<rparr>"
proof (induction q arbitrary: s)
  case Nil
  show ?case by (simp add: scan_Nil)
next
  case (Cons c cs)
  show ?case by (simp add: scan_Cons scan_char_terms_prefix Cons.IH)
qed

lemma finish_terms_prefix:
  "finish (s\<lparr>terms := P @ terms s\<rparr>) = P @ finish s"
  by (simp add: finish_def)

lemma parse_split_blank:
  assumes "even (count_list a double_quote)"
  shows "parse_search_query (a @ blank # b) = parse_search_query a @ parse_search_query b"
proof -
  let ?s = "scan scan_start a"
  have nq: "\<not> in_quotes ?s"
    using assms by (simp add: in_quotes_scan scan_start_def)
  have "scan_char ?s blank = scan_start\<lparr>terms := finish ?s @ terms scan_start\<rparr>"
    using nq by (simp add: scan_char_def finish_def scan_start_def)
  then have "scan scan_start (a @ blank # b) =
             scan (scan_start\<lparr>terms := finish ?s @ terms scan_start\<rparr>) b"
    by (simp add: scan_append scan_Cons)
  then show ?thesis
    by (simp add: parse_search_query_def scan_terms_prefix finish_terms_prefix)
qed

lemma parse_quoted:
  assumes "blank \<notin> set u" "double_quote \<notin> set u" "double_quote \<notin> set s"
    and "blank \<notin> set v" "double_quote \<notin> set v"
  shows "parse_search_query (u @ double_quote # s @ double_quote # v) =
         (if u @ s @ v = [] then [] else [u @ s @ v])"
proof -
  have 1: "scan scan_start u = scan_start\<lparr>current_term := u\<rparr>"
    using assms by (simp add: scan_plain) (simp add: scan_start_def)
  have 2: "scan_char (scan_start\<lparr>current_term := u\<rparr>) double_quote =
           scan_start\<lparr>current_term := u, in_quotes := True\<rparr>"
    by (simp add: scan_char_def scan_start_def)
  have 3: "scan (scan_start\<lparr>current_term := u, in_quotes := True\<rparr>) s =
           scan_start\<lparr>current_term := u @ s, in_quotes := True\<rparr>"
    using assms by (simp add: scan_plain)
  have 4: "scan_char (scan_start\<lparr>current_term := u @ s, in_quotes := True\<rparr>) double_quote =
           scan_start\<lparr>current_term := u @ s\<rparr>"
    by (simp add: scan_char_def scan_start_def)
  have 5: "scan (scan_start\<lparr>current_term := u @ s\<rparr>) v =
           scan_start\<lparr>current_term := u @ s @ v\<rparr>"
    using assms by (simp add: scan_plain)
  have "scan scan_start (u @ double_quote # s @ double_quote # v) =
        scan_start\<lparr>current_term := u @ s @ v\<rparr>"
    by (simp add: scan_append scan_Cons 1 2 3 4 5)
  then show ?thesis
    by (simp add: parse_search_query_def finish_def scan_start_def)
qed

lemma parse_plain:
  assumes "blank \<notin> set w" "double_quote \<notin> set w" "w \<noteq> []"
  shows "parse_search_query w = [w]"
  using assms by (simp add: parse_search_query_def scan_plain finish_def scan_start_def)

lemma clean_scan_char: "clean s \<Longrightarrow> clean (scan_char s c)"
  by (auto simp: clean_def scan_char_def)

lemma clean_scan: "clean s \<Longrightarrow> clean (scan s q)"
  by (induction q arbitrary: s) (simp_all add: scan_Nil scan_Cons clean_scan_char)

lemma parse_terms_clean:
  "t \<in> set (parse_search_query q) \<Longrightarrow> t \<noteq> [] \<and> double_quote \<notin> set t"
proof -
  assume t: "t \<in> set (parse_search_query q)"
  have "clean (scan scan_start q)"
    by (rule clean_scan) (simp add: clean_def scan_start_def)
  with t show ?thesis
    by (auto simp: parse_search_query_def finish_def clean_def split: if_splits)
qed

lemma contents_scan_char:
  "filter (\<lambda>x. x \<noteq> blank) (contents (scan_char s c)) =
   filter (\<lambda>x. x \<noteq> blank) (contents s) @ (if c = blank \<or> c = double_quote then [] else [c])"
  by (simp add: contents_def scan_char_def)

lemma contents_scan:
  "filter (\<lambda>x. x \<noteq> blank) (contents (scan s q)) =
   filter (\<lambda>x. x \<noteq> blank) (contents s) @ filter (\<lambda>x. x \<noteq> blank \<and> x \<noteq> double_quote) q"
proof (induction q arbitrary: s)
  case Nil
  show ?case by (simp add: scan_Nil)
next
  case (Cons c cs)
  show ?case by (simp add: scan_Cons Cons.IH contents_scan_char)
qed

lemma concat_finish: "concat (finish s) = contents s"
  by (simp add: finish_def contents_def)

lemma parse_keeps_characters:
  "filter (\<lambda>x. x \<noteq> blank) (concat (parse_search_query q)) =
   filter (\<lambda>x. x \<noteq> blank \<and> x \<noteq> double_quote) q"
  by (simp add: parse_search_query_def concat_finish contents_scan)
     (simp add: contents_def scan_start_def)

lemma parse_dangling_quote:
  assumes "even (count_list p double_quote)" "double_quote \<notin> set s"
  shows "parse_search_query (p @ double_quote # s) =
         terms (scan scan_start p) @
         (if current_term (scan scan_start p) @ s = [] then []
          else [current_term (scan scan_start p) @ s])"
proof -
  let ?st = "scan scan_start p"
  have nq: "\<not> in_quotes ?st"
    using assms(1) by (simp add: in_quotes_scan scan_start_def)
  have "scan_char ?st double_quote = ?st\<lparr>in_quotes := True\<rparr>"
    using nq by (simp add: scan_char_def)
  moreover have "scan (?st\<lparr>in_quotes := True\<rparr>) s =
                 ?st\<lparr>in_quotes := True, current_term := current_term ?st @ s\<rparr>"
    using assms(2) by (simp add: scan_plain)
  ultimately have "scan scan_start (p @ double_quote # s) =
                   ?st\<lparr>in_quotes := True, current_term := current_term ?st @ s\<rparr>"
    by (simp add: scan_append scan_Cons)
  then show ?thesis
    by (simp add: parse_search_query_def finish_def)
qed

lemma parse_pending_term:
  assumes "current_term (scan scan_start q) \<noteq> []"
  shows "parse_search_query q \<noteq> [] \<and>
         last (parse_search_query q) = current_term (scan scan_start q)"
  using assms by (simp add: parse_search_query_def finish_def)

lemma parse_last_character:
  assumes "c \<noteq> double_quote" "c \<noteq> blank \<or> odd (count_list p double_quote)"
  shows "parse_search_query (p @ [c]) \<noteq> [] \<and> last (last (parse_search_query (p @ [c]))) = c"
proof -
  let ?st = "scan scan_start p"
  have "in_quotes ?st = odd (count_list p double_quote)"
    by (simp add: in_quotes_scan scan_start_def)
  with assms have "scan_char ?st c = ?st\<lparr>current_term := current_term ?st @ [c]\<rparr>"
    by (auto simp: scan_char_def)
  then have "scan scan_start (p @ [c]) = ?st\<lparr>current_term := current_term ?st @ [c]\<rparr>"
    by (simp add: scan_append scan_Cons scan_Nil)
  then show ?thesis
    by (simp add: parse_search_query_def finish_def)
qed

section \<open>Claims about the tokenizer\<close>

text \<open>
  Claim C7, as amended. The tokenizer is one left-to-right fold (\<open>scan\<close>) over the
  characters with the \<open>in_quotes\<close> toggle. It splits on the blank character
  (U+0020) only, not on whitespace in general: a tab or a newline between two words does
  not separate them. For every input:
  \<^item> no token is empty and no token contains a double quote (the quotes are stripped);
  \<^item> a blank outside quotes (an even number of quotes before it) splits the query: the
    tokens are those of the part before it followed by those of the part after it;
  \<^item> a quoted stretch, blanks included, stays inside one token, glued to the unquoted
    text around it;
  \<^item> a word with neither blank nor quote is one token, whatever other whitespace it
    holds;
  \<^item> the input \<open>"fox wolf"\<close>, quotes included, yields the single token \<open>fox wolf\<close>.
\<close>

theorem tokenizer_splits_on_blanks_outside_quotes:
  "(\<forall>t \<in> set (parse_search_query q). t \<noteq> [] \<and> double_quote \<notin> set t)
   \<and> (even (count_list a double_quote) \<longrightarrow>
        parse_search_query (a @ blank # b) = parse_search_query a @ parse_search_query b)
   \<and> (blank \<notin> set u \<and> double_quote \<notin> set u \<and> double_quote \<notin> set s
        \<and> blank \<notin> set v \<and> double_quote \<notin> set v \<longrightarrow>
        parse_search_query (u @ double_quote # s @ double_quote # v) =
          (if u @ s @ v = [] then [] else [u @ s @ v]))
   \<and> (blank \<notin> set w \<and> double_quote \<notin> set w \<and> w \<noteq> [] \<longrightarrow> parse_search_query w = [w])
   \<and> parse_search_query (double_quote # ''fox wolf'' @ [double_quote]) = [''fox wolf'']"
proof -
  have ex: "parse_search_query ([] @ double_quote # ''fox wolf'' @ double_quote # []) =
            (if [] @ ''fox wolf'' @ [] = [] then [] else [[] @ ''fox wolf'' @ []])"
    by (rule parse_quoted) simp_all
  show ?thesis
    using ex parse_terms_clean [of _ q] parse_split_blank [of a b]
      parse_quoted [of u s v] parse_plain [of w]
    by simp
qed

theorem tokenizer_splits_on_blanks_outside_quotes_witness:
  "[] \<notin> set (parse_search_query ''red fox'')
   \<and> parse_search_query (''red fox'' @ blank # ''wolf'') =
       parse_search_query ''red fox'' @ parse_search_query ''wolf''
   \<and> parse_search_query (''a'' @ double_quote # ''fox wolf'' @ double_quote # ''b'') =
       [''afox wolfb'']
   \<and> parse_search_query [CHR ''a'', tab, CHR ''b''] = [[CHR ''a'', tab, CHR ''b'']]"
  using tokenizer_splits_on_blanks_outside_quotes
    [of "''red fox''" "''red fox''" "''wolf''" "''a''" "''fox wolf''" "''b''"
        "[CHR ''a'', tab, CHR ''b'']"]
  by auto

text \<open>
  The claim as stated (splitting on whitespace) fails: a tab is whitespace, yet the two
  words around it come out as one token, tab included.
\<close>

theorem tokenizer_tab_counterexample:
  "parse_search_query [CHR ''a'', tab, CHR ''b''] = [[CHR ''a'', tab, CHR ''b'']]
   \<and> parse_search_query [CHR ''a'', tab, CHR ''b''] \<noteq> [''a'', ''b'']"
  by (simp add: parse_search_query_def scan_def scan_char_def finish_def scan_start_def)

text \<open>
  Claim C10. The tokenizer is a total function on strings: the loop performs no
  operation that can fail, so the model has no error value, and it reads every input to
  its end, losing no character other than double quotes and separating blanks. With an
  unbalanced quote (an even number of quotes, then one more), the whole remainder of
  the input, blanks included, continues the term that was pending when the quote
  opened and is one token. A non-empty pending term at the end of the input is emitted as
  the last token: in particular whenever the input ends with a character that is
  neither a quote nor a separating blank.
\<close>

theorem tokenizer_total_on_unbalanced_quotes:
  "filter (\<lambda>x. x \<noteq> blank) (concat (parse_search_query q)) =
     filter (\<lambda>x. x \<noteq> blank \<and> x \<noteq> double_quote) q
   \<and> (even (count_list p double_quote) \<and> double_quote \<notin> set s \<longrightarrow>
        parse_search_query (p @ double_quote # s) =
          terms (scan scan_start p) @
          (if current_term (scan scan_start p) @ s = [] then []
           else [current_term (scan scan_start p) @ s]))
   \<and> (current_term (scan scan_start q) \<noteq> [] \<longrightarrow>
        parse_search_query q \<noteq> [] \<and>
        last (parse_search_query q) = current_term (scan scan_start q))
   \<and> (c \<noteq> double_quote \<and> (c \<noteq> blank \<or> odd (count_list r double_quote)) \<longrightarrow>
        parse_search_query (r @ [c]) \<noteq> [] \<and>
        last (last (parse_search_query (r @ [c]))) = c)"
  using parse_keeps_characters [of q] parse_dangling_quote [of p s]
    parse_pending_term [of q] parse_last_character [of c r]
  by simp

theorem tokenizer_total_on_unbalanced_quotes_witness:
  "parse_search_query (''red '' @ double_quote # ''fox wolf '') = [''red'', ''fox wolf '']
   \<and> last (parse_search_query ''red fox'') = ''fox''
   \<and> last (last (parse_search_query (''red fo'' @ ''x''))) = CHR ''x''"
proof -
  have st: "scan scan_start ''red '' = \<lparr>terms = [''red''], current_term = [], in_quotes = False\<rparr>"
    by (simp add: scan_def scan_char_def scan_start_def)
  have st2: "current_term (scan scan_start ''red fox'') = ''fox''"
    by (simp add: scan_def scan_char_def scan_start_def)
  show ?thesis
    using tokenizer_total_on_unbalanced_quotes
      [of "''red fox''" "''red ''" "''fox wolf ''" "CHR ''x''" "''red fo''"]
    by (simp add: st st2)
qed

section \<open>Properties of the store\<close>


lemma insert_row_eq:
  "insert_row d data =
     (case d_id data of
        None \<Rightarrow> Inl IntegrityError
      | Some pid \<Rightarrow> if md5_taken d (d_md5 data) then Inl IntegrityError
                    else Inr (stored d pid data))"
  by (simp add: insert_row_def stored_def split: option.splits)


text \<open>The batch loop does to each record what \<open>insert_post\<close> does, and counts.\<close>

lemma insert_batch_loop_step:
  "insert_batch_loop d n (data # rest) =
     (case d_id data of
        None \<Rightarrow> insert_batch_loop d n rest
      | Some pid \<Rightarrow> if md5_taken d (d_md5 data) then insert_batch_loop d n rest
                    else insert_batch_loop (stored d pid data) (n + 1) rest)"
  by (simp add: insert_row_eq split: option.splits)

declare insert_batch_loop.simps(2) [simp del]

lemma insert_batch_loop_total:
  "\<exists>k d'. insert_batch_loop d n ps = Inr (n + k, d')
          \<and> insert_batch_loop d 0 ps = Inr (k, d')
          \<and> (\<exists>new. posts d' = posts d @ new \<and> length new = k)
          \<and> processed_files d' = processed_files d"
proof (induction ps arbitrary: d n)
  case Nil
  show ?case by simp
next
  case (Cons data rest)
  show ?case
  proof (cases "d_id data \<noteq> None \<and> \<not> md5_taken d (d_md5 data)")
    case False
    then have "insert_batch_loop d m (data # rest) = insert_batch_loop d m rest" for m
      by (auto simp: insert_batch_loop_step split: option.splits)
    then show ?thesis using Cons.IH [of d n] by simp
  next
    case True
    then obtain pid where pid: "d_id data = Some pid" by auto
    let ?d = "stored d pid data"
    have step: "insert_batch_loop d m (data # rest) = insert_batch_loop ?d (m + 1) rest" for m
      using True pid by (simp add: insert_batch_loop_step)
    obtain k d' new where a: "insert_batch_loop ?d (n + 1) rest = Inr (n + 1 + k, d')"
      and b: "insert_batch_loop ?d 0 rest = Inr (k, d')"
      and c: "posts d' = posts ?d @ new" "length new = k"
      and e: "processed_files d' = processed_files ?d"
      using Cons.IH [of ?d "n + 1"] by blast
    obtain k1 d1 where a1: "insert_batch_loop ?d (0 + 1) rest = Inr (0 + 1 + k1, d1)"
      and b1: "insert_batch_loop ?d 0 rest = Inr (k1, d1)"
      using Cons.IH [of ?d "0 + 1"] by blast
    from b b1 have same: "k1 = k" "d1 = d'" by simp_all
    have "insert_batch_loop d n (data # rest) = Inr (n + (k + 1), d')"
      using a by (simp add: step)
    moreover have "insert_batch_loop d 0 (data # rest) = Inr (k + 1, d')"
      using a1 same by (simp add: step)
    moreover have "posts d' = posts d @ (new_row (int (length (posts d)) + 1) pid data # new)"
      using c by (simp add: stored_def)
    moreover have "length (new_row (int (length (posts d)) + 1) pid data # new) = k + 1"
      using c by simp
    moreover have "processed_files d' = processed_files d"
      using e by (simp add: stored_def)
    ultimately show ?thesis by blast
  qed
qed

lemma insert_batch_total:
  "\<exists>n d'. insert_batch d ps = Inr (n, d')
          \<and> (\<exists>new. posts d' = posts d @ new \<and> length new = n)
          \<and> processed_files d' = processed_files d"
  using insert_batch_loop_total [of d 0 ps] by (auto simp: insert_batch_def)












section \<open>Claims about the store\<close>




section \<open>Properties of the query compiler\<close>

lemmas tokenizer_defs =
  parse_search_query_def scan_def scan_char_def finish_def scan_start_def

lemmas python_defs =
  py_int_def py_float_def strip_def is_space_def unsigned_int_def digitpart_def is_digit_def
  digit_val_def abs_float_def lower_def to_lower_def fraction_part_def exponent_part_def
  negate_def int_of_product_def startswith_def endswith_def py_str_def

lemmas compiler_defs =
  build_query_def compile_term_def compiler_start_def add_or_tags_def add_condition_def
  numeric_condition_def add_numeric_condition_def split_key_def split_value_def percent_def
  replace_stars_def parse_filesize_def with_operator_def except_value_error_def
  float_times_def multipliers_def

subsection \<open>Malformed numbers\<close>

lemma build_query_score_two_operators:
  "build_query (Some ''score:>>5'') limit = Inl ValueError"
  by (simp add: tokenizer_defs compiler_defs python_defs)

lemma build_query_score_letters:
  "build_query (Some ''score:abc'') limit = Inr ([Compare Col_score Cmp_eq], [Number limit])"
  by (simp add: tokenizer_defs compiler_defs python_defs)

subsection \<open>Size suffixes\<close>

lemma parse_filesize_1mb: "parse_filesize ''>1mb'' = Inr None"
  by (simp add: compiler_defs python_defs)

lemma build_query_filesize_1mb:
  "build_query (Some ''filesize:>1mb'') limit = Inr ([], [Number limit])"
  by (simp add: tokenizer_defs compiler_defs python_defs)

lemma build_query_filesize_bytes:
  "build_query (Some ''filesize:>1048576b'') limit =
   Inr ([Compare Col_file_size Cmp_gt], [Number 1048576, Number limit])"
  by (simp add: tokenizer_defs compiler_defs python_defs str_nat.simps)

subsection \<open>The OR group\<close>










declare where_holds.simps(2) [simp del]




subsection \<open>\<open>LIKE\<close> with a literal between two \<open>%\<close> is containment, ignoring case\<close>






subsection \<open>Order and limit\<close>






section \<open>Claims about the query compiler\<close>

text \<open>
  Claim C2 says that a numeric value which does not parse adds no predicate and raises
  nothing. The code does otherwise. With an operator prefix, as in \<open>score:>>5\<close>, the
  \<open>ValueError\<close> of \<open>int\<close> is raised outside any \<open>try\<close> and leaves \<open>search_posts\<close>.
  Without a prefix, as in \<open>score:abc\<close>, the \<open>ValueError\<close> is caught, but the fragment
  was appended to the statement before the conversion, so the statement has one
  placeholder more than it has parameters and its execution raises
  \<open>ProgrammingError\<close>.
\<close>

theorem malformed_numeric_value_raises:
  "search_posts d (Some ''score:>>5'') limit = Inl ValueError
   \<and> search_posts d (Some ''score:abc'') limit = Inl ProgrammingError"
  by (simp add: search_posts_def build_query_score_two_operators build_query_score_letters
      execute_def arity_def)

text \<open>
  Claim C3 says that the suffixes \<open>kb\<close>, \<open>mb\<close> and \<open>gb\<close> are recognized and that
  \<open>filesize:>1mb\<close> means more than 1048576 bytes. The code does otherwise: the loop
  over the suffixes tries \<open>b\<close> first, every value ending in \<open>kb\<close>, \<open>mb\<close> or \<open>gb\<close>
  ends in \<open>b\<close>, and the number left, \<open>>1m\<close>, does not parse. \<open>_parse_filesize\<close> returns
  \<open>None\<close>, no predicate is added, and the query returns what the empty query returns: a
  post of exactly 1048576 bytes is not excluded. The same bound written in bytes,
  \<open>filesize:>1048576b\<close>, does exclude it.
\<close>

theorem filesize_mb_suffix_adds_no_predicate:
  "parse_filesize ''>1mb'' = Inr None
   \<and> search_posts d (Some ''filesize:>1mb'') limit = search_posts d None limit
   \<and> search_posts one_mebibyte_store (Some ''filesize:>1mb'') 50000 = Inr [(1, 1, None)]
   \<and> search_posts one_mebibyte_store (Some ''filesize:>1048576b'') 50000 = Inr []"
proof -
  have none: "build_query None limit = Inr ([], [Number limit])"
    by (simp add: build_query_def)
  have same: "search_posts d (Some ''filesize:>1mb'') limit = search_posts d None limit"
    by (simp add: search_posts_def build_query_filesize_1mb none)
  have kept: "search_posts one_mebibyte_store (Some ''filesize:>1mb'') 50000 =
              Inr [(1, 1, None)]"
    by (simp add: search_posts_def build_query_filesize_1mb execute_def
        order_by_post_id_desc_def sql_limit_def selected_def one_mebibyte_store_def
        new_row_def no_fields_def)
  have dropped: "search_posts one_mebibyte_store (Some ''filesize:>1048576b'') 50000 = Inr []"
    by (simp add: search_posts_def build_query_filesize_bytes execute_def arity_def
        where_holds.simps column_value_def compare_def order_by_post_id_desc_def
        sql_limit_def one_mebibyte_store_def new_row_def no_fields_def)
  from same kept dropped show ?thesis
    by (simp add: parse_filesize_1mb)
qed





section \<open>Properties of the ingestor\<close>

subsection \<open>The ledger is written by \<open>mark_file_processed\<close> only\<close>

lemma ledger_process_line:
  "processed_files (s_db (process_line decode s line)) = processed_files (s_db s)"
proof (cases "decode line")
  case None
  then show ?thesis by (simp add: process_line_def)
next
  case (Some data)
  obtain n d' where "insert_batch (s_db s) (batch s @ [data]) = Inr (n, d')"
    and "processed_files d' = processed_files (s_db s)"
    using insert_batch_total [of "s_db s" "batch s @ [data]"] by blast
  with Some show ?thesis by (simp add: process_line_def)
qed

lemma ledger_process_lines:
  "processed_files (s_db (process_lines decode s)) = processed_files (s_db s)"
proof (induction decode s rule: process_lines.induct)
  case (1 decode s)
  show ?case
  proof (cases "split_newline (buffer s)")
    case None
    then show ?thesis by (simp add: process_lines.simps [of decode s])
  next
    case (Some p)
    obtain line rest where p: "p = (line, rest)" by (cases p)
    let ?s = "process_line decode (s\<lparr>buffer := rest\<rparr>) line"
    have one: "processed_files (s_db ?s) = processed_files (s_db s)"
      by (simp add: ledger_process_line)
    show ?thesis
    proof (cases "raised ?s \<noteq> None")
      case True
      with Some p one show ?thesis by (simp add: process_lines.simps [of decode s])
    next
      case False
      with Some p have "processed_files (s_db (process_lines decode ?s)) = processed_files (s_db ?s)"
        by (intro "1.IH") simp_all
      with False Some p one show ?thesis by (simp add: process_lines.simps [of decode s])
    qed
  qed
qed

lemma ledger_consume:
  "processed_files (s_db (consume decode s es)) = processed_files (s_db s)"
proof (induction decode s es rule: consume.induct)
  case (4 decode s c es)
  then show ?case by (simp add: ledger_process_lines)
qed simp_all

lemma ledger_last_record:
  "processed_files (s_db (last_record decode s)) = processed_files (s_db s)"
  by (simp add: last_record_def split: option.splits)

lemma ledger_last_batch:
  "processed_files (s_db (last_batch s)) = processed_files (s_db s)"
proof -
  obtain n d' where "insert_batch (s_db s) (batch s) = Inr (n, d')"
    and "processed_files d' = processed_files (s_db s)"
    using insert_batch_total [of "s_db s" "batch s"] by blast
  then show ?thesis by (simp add: last_batch_def)
qed

lemma ledger_stream_process_file:
  "stream_process_file decode d cancelled f = (added, d', cancelled') \<Longrightarrow>
   processed_files d' = processed_files d"
  by (auto simp: stream_process_file_def Let_def ledger_consume ledger_last_record
      ledger_last_batch split: fetch.splits if_splits)

lemma is_file_processed_mark:
  "is_file_processed (mark_file_processed d f h) g \<longleftrightarrow> g = f \<or> is_file_processed d g"
  by (auto simp: is_file_processed_def mark_file_processed_def)

subsection \<open>Every file the loop reaches is marked\<close>

lemma download_files_keeps_marks:
  "is_file_processed (store dl) g \<Longrightarrow>
   is_file_processed (store (download_files decode remote dl fs)) g"
proof (induction fs arbitrary: dl)
  case Nil
  then show ?case by simp
next
  case (Cons f fs)
  show ?case
  proof (cases "cancel_flag dl")
    case True
    with Cons.prems show ?thesis by simp
  next
    case False
    obtain added d' cancelled where
      r: "stream_process_file decode (store dl) (cancel_flag dl) (remote f) = (added, d', cancelled)"
      by (cases "stream_process_file decode (store dl) (cancel_flag dl) (remote f)")
    have "is_file_processed d' g"
      using Cons.prems ledger_stream_process_file [OF r] by (simp add: is_file_processed_def)
    then have "is_file_processed (mark_file_processed d' f None) g"
      by (simp add: is_file_processed_mark)
    then show ?thesis
      using False r by (simp add: Cons.IH)
  qed
qed

lemma download_files_marks_first:
  assumes "\<not> cancel_flag dl"
  shows "is_file_processed (store (download_files decode remote dl (f # fs))) f"
proof -
  obtain added d' cancelled where
    r: "stream_process_file decode (store dl) (cancel_flag dl) (remote f) = (added, d', cancelled)"
    by (cases "stream_process_file decode (store dl) (cancel_flag dl) (remote f)")
  have "is_file_processed (mark_file_processed d' f None) f"
    by (simp add: is_file_processed_mark)
  then show ?thesis
    using assms r by (simp add: download_files_keeps_marks)
qed

lemma first_file_is_marked:
  assumes "limited (file_limit dl) (get_jsonl_files listing) = f # fs"
    and "\<not> is_file_processed (store dl) f"
  shows "is_file_processed (store (download_and_process decode listing remote dl)) f"
proof -
  let ?dl1 = "dl\<lparr>is_downloading := True, cancel_flag := False,
                total_files := length (f # fs), processed_count := 0\<rparr>"
  let ?rest = "filter (\<lambda>g. \<not> is_file_processed (store dl) g) fs"
  have "download_and_process decode listing remote dl =
        (download_files decode remote ?dl1 (f # ?rest))\<lparr>is_downloading := False\<rparr>"
    using assms by (simp add: download_and_process_def Let_def del: download_files.simps)
  moreover have "is_file_processed (store (download_files decode remote ?dl1 (f # ?rest))) f"
    by (rule download_files_marks_first) simp
  ultimately show ?thesis by simp
qed

lemma jsonl_one: "get_jsonl_files (Some [''a.jsonl'']) = [''a.jsonl'']"
  by (simp add: get_jsonl_files_def endswith_def)

lemma jsonl_two: "get_jsonl_files (Some [''a.jsonl'', ''b.jsonl'']) = [''a.jsonl'', ''b.jsonl'']"
  by (simp add: get_jsonl_files_def endswith_def less_eq_char_def less_char_def)

lemmas ingest_defs =
  download_and_process_def limited_def slice_to_def new_downloader_def empty_db_def
  is_file_processed_def mark_file_processed_def stream_process_file_def last_record_def
  last_batch_def process_line_def process_lines.simps batch_size_def sample_decoder_def
  line_A_def line_B_def strip_def is_space_def insert_batch_def insert_batch_loop.simps
  insert_row_def md5_taken_def new_row_def no_fields_def url_or_file_url_def truthy_def

section \<open>Claims about the ingestor\<close>

text \<open>
  Claim C1 says that a file whose download is cancelled mid-stream is not recorded in
  the ledger. The code does otherwise: when the flag is seen in the chunk loop the loop
  is left by \<open>break\<close>, \<open>_stream_process_file\<close> returns as usual, and
  \<open>download_and_process\<close> calls \<open>mark_file_processed\<close> without testing the flag. Whatever
  the stream of the file is, the file is in the ledger after the run. In the run below
  the flag is set between the chunks holding the lines \<open>A\<close> and \<open>B\<close>: the record of
  \<open>A\<close> is stored, the file is marked, and a second run, to which the whole file is
  offered, skips it, so the record of \<open>B\<close> never reaches the store.
\<close>

theorem cancelled_file_is_marked_processed:
  "is_file_processed
     (store (download_and_process decode (Some [''a.jsonl'']) (\<lambda>f. Stream es)
        (new_downloader empty_db))) ''a.jsonl''
   \<and> cancel_flag
        (download_and_process sample_decoder (Some [''a.jsonl''])
           (\<lambda>f. Stream [Chunk line_A, Cancel, Chunk line_B]) (new_downloader empty_db))
   \<and> map post_id (posts (store
        (download_and_process sample_decoder (Some [''a.jsonl''])
           (\<lambda>f. Stream [Chunk line_A, Cancel, Chunk line_B]) (new_downloader empty_db)))) = [1]
   \<and> map post_id (posts (store
        (download_and_process sample_decoder (Some [''a.jsonl''])
           (\<lambda>f. Stream [Chunk line_A, Chunk line_B])
           (download_and_process sample_decoder (Some [''a.jsonl''])
              (\<lambda>f. Stream [Chunk line_A, Cancel, Chunk line_B]) (new_downloader empty_db))))) = [1]"
proof -
  have marked: "is_file_processed
     (store (download_and_process decode (Some [''a.jsonl'']) (\<lambda>f. Stream es)
        (new_downloader empty_db))) ''a.jsonl''"
    by (rule first_file_is_marked)
       (simp_all add: jsonl_one limited_def slice_to_def new_downloader_def empty_db_def
          is_file_processed_def)
  have run: "download_and_process sample_decoder (Some [''a.jsonl''])
           (\<lambda>f. Stream [Chunk line_A, Cancel, Chunk line_B]) (new_downloader empty_db) =
         \<lparr>store = \<lparr>posts = [new_row 1 1 (no_fields\<lparr>d_id := Some 1, d_md5 := Some ''a''\<rparr>)],
                   processed_files = [(''a.jsonl'', None)]\<rparr>,
          cancel_flag = True, file_limit = Some 3, total_files = 1, processed_count = 1,
          current_file = ''a.jsonl'', total_posts_added = 1, is_downloading = False\<rparr>"
    by (simp add: jsonl_one ingest_defs)
  have again: "store (download_and_process sample_decoder (Some [''a.jsonl''])
           (\<lambda>f. Stream [Chunk line_A, Chunk line_B])
           \<lparr>store = \<lparr>posts = [new_row 1 1 (no_fields\<lparr>d_id := Some 1, d_md5 := Some ''a''\<rparr>)],
                   processed_files = [(''a.jsonl'', None)]\<rparr>,
          cancel_flag = True, file_limit = Some 3, total_files = 1, processed_count = 1,
          current_file = ''a.jsonl'', total_posts_added = 1, is_downloading = False\<rparr>) =
        \<lparr>posts = [new_row 1 1 (no_fields\<lparr>d_id := Some 1, d_md5 := Some ''a''\<rparr>)],
         processed_files = [(''a.jsonl'', None)]\<rparr>"
    by (simp add: jsonl_one download_and_process_def limited_def slice_to_def
        is_file_processed_def)
  show ?thesis
    unfolding run again using marked by (simp add: new_row_def)
qed

text \<open>
  Claim C4 says that a file whose fetch fails is not marked as processed. The failure
  is caught and the run goes on to the next file, as the claim says, but it is caught
  inside \<open>_stream_process_file\<close>, which returns 0 as if the file were empty, so the
  \<open>except\<close> clause of \<open>download_and_process\<close> is never reached and the file is marked
  like any other. Whatever the second file holds, the refused first file is in the
  ledger after the run. In the run below \<open>a.jsonl\<close> is refused and \<open>b.jsonl\<close> holds the
  line \<open>B\<close>: both files are marked, and a second run in which \<open>a.jsonl\<close> can be
  fetched skips it, so its record never reaches the store.
\<close>

theorem failed_file_is_marked_processed:
  "is_file_processed
     (store (download_and_process decode (Some [''a.jsonl'', ''b.jsonl''])
        (\<lambda>f. if f = ''a.jsonl'' then Refused else Stream es) (new_downloader empty_db)))
     ''a.jsonl''
   \<and> processed_files (store
        (download_and_process sample_decoder (Some [''a.jsonl'', ''b.jsonl''])
           (\<lambda>f. if f = ''a.jsonl'' then Refused else Stream [Chunk line_B])
           (new_downloader empty_db))) = [(''a.jsonl'', None), (''b.jsonl'', None)]
   \<and> map post_id (posts (store
        (download_and_process sample_decoder (Some [''a.jsonl'', ''b.jsonl''])
           (\<lambda>f. if f = ''a.jsonl'' then Refused else Stream [Chunk line_B])
           (new_downloader empty_db)))) = [2]
   \<and> map post_id (posts (store
        (download_and_process sample_decoder (Some [''a.jsonl'', ''b.jsonl''])
           (\<lambda>f. if f = ''a.jsonl'' then Stream [Chunk line_A] else Stream [Chunk line_B])
           (download_and_process sample_decoder (Some [''a.jsonl'', ''b.jsonl''])
              (\<lambda>f. if f = ''a.jsonl'' then Refused else Stream [Chunk line_B])
              (new_downloader empty_db))))) = [2]"
proof -
  have marked: "is_file_processed
     (store (download_and_process decode (Some [''a.jsonl'', ''b.jsonl''])
        (\<lambda>f. if f = ''a.jsonl'' then Refused else Stream es) (new_downloader empty_db)))
     ''a.jsonl''"
    by (rule first_file_is_marked)
       (simp_all add: jsonl_two limited_def slice_to_def new_downloader_def empty_db_def
          is_file_processed_def)
  have run: "download_and_process sample_decoder (Some [''a.jsonl'', ''b.jsonl''])
           (\<lambda>f. if f = ''a.jsonl'' then Refused else Stream [Chunk line_B])
           (new_downloader empty_db) =
         \<lparr>store = \<lparr>posts = [new_row 1 2 (no_fields\<lparr>d_id := Some 2, d_md5 := Some ''b''\<rparr>)],
                   processed_files = [(''a.jsonl'', None), (''b.jsonl'', None)]\<rparr>,
          cancel_flag = False, file_limit = Some 3, total_files = 2, processed_count = 2,
          current_file = ''b.jsonl'', total_posts_added = 1, is_downloading = False\<rparr>"
    by (simp add: jsonl_two ingest_defs)
  have again: "store (download_and_process sample_decoder (Some [''a.jsonl'', ''b.jsonl''])
           (\<lambda>f. if f = ''a.jsonl'' then Stream [Chunk line_A] else Stream [Chunk line_B])
           \<lparr>store = \<lparr>posts = [new_row 1 2 (no_fields\<lparr>d_id := Some 2, d_md5 := Some ''b''\<rparr>)],
                   processed_files = [(''a.jsonl'', None), (''b.jsonl'', None)]\<rparr>,
          cancel_flag = False, file_limit = Some 3, total_files = 2, processed_count = 2,
          current_file = ''b.jsonl'', total_posts_added = 1, is_downloading = False\<rparr>) =
        \<lparr>posts = [new_row 1 2 (no_fields\<lparr>d_id := Some 2, d_md5 := Some ''b''\<rparr>)],
         processed_files = [(''a.jsonl'', None), (''b.jsonl'', None)]\<rparr>"
    by (simp add: jsonl_two download_and_process_def limited_def slice_to_def
        is_file_processed_def)
  show ?thesis
    unfolding run again using marked by (simp add: new_row_def)
qed

section \<open>The store invariant along a whole run\<close>













section \<open>The store invariant, for every operation\<close>




end
